theory Spec2Isabelle
  imports Complex_Main
begin

section \<open>JavaScript values\<close>

text \<open>
  The values a Collection holds are ordinary JavaScript values. A class is its name and,
  for a subclass, the class it extends; an object is an instance of one class and has an
  identity. Numbers are modelled by the integers and NaN, which is all the truthiness test
  of the source can tell apart.
\<close>

datatype cls = Base string | Extends string cls

datatype jsval =
    Undefined
  | Null
  | JBool bool
  | JNum int
  | JNaN
  | JStr string
  | JObj cls nat

datatype error = TypeError

fun cls_name :: "cls \<Rightarrow> string" where
  "cls_name (Base n) = n"
| "cls_name (Extends n p) = n"

text \<open>The prototype chain of a class: the class itself, then the classes it extends.\<close>

fun proto_chain :: "cls \<Rightarrow> cls list" where
  "proto_chain (Base n) = [Base n]"
| "proto_chain (Extends n p) = Extends n p # proto_chain p"

text \<open>\<^verbatim>\<open>value instanceof C\<close>: false on every primitive, and on an object true when
  \<open>C\<close> is on the prototype chain of the object's class.\<close>

fun instanceof :: "jsval \<Rightarrow> cls \<Rightarrow> bool" where
  "instanceof (JObj k i) c = (c \<in> set (proto_chain k))"
| "instanceof v c = False"

text \<open>The conversion to boolean that \<^verbatim>\<open>if (x)\<close>, \<^verbatim>\<open>!x\<close> and \<^verbatim>\<open>x && y\<close> apply.\<close>

fun truthy :: "jsval \<Rightarrow> bool" where
  "truthy Undefined = False"
| "truthy Null = False"
| "truthy (JBool b) = b"
| "truthy (JNum n) = (n \<noteq> 0)"
| "truthy JNaN = False"
| "truthy (JStr s) = (s \<noteq> [])"
| "truthy (JObj k i) = True"

section \<open>The inherited Map\<close>

text \<open>
  \<^verbatim>\<open>class Collection extends Map\<close>: the entries of the Map are kept as an association
  list in insertion order, together with the one field the class adds.
\<close>

record 'k collection =
  baseObject :: "cls option"
  store :: "('k \<times> jsval) list"

text \<open>A Map never holds a key twice.\<close>

definition wf :: "'k collection \<Rightarrow> bool" where
  "wf c = distinct (List.map fst (store c))"

definition size_coll :: "'k collection \<Rightarrow> nat" where
  "size_coll c = length (store c)"

definition has :: "'k \<Rightarrow> 'k collection \<Rightarrow> bool" where
  "has key c = (map_of (store c) key \<noteq> None)"

text \<open>\<^verbatim>\<open>Map.prototype.get\<close> answers \<^verbatim>\<open>undefined\<close> for a key that is not there.\<close>

definition get :: "'k \<Rightarrow> 'k collection \<Rightarrow> jsval" where
  "get key c = (case map_of (store c) key of None \<Rightarrow> Undefined | Some v \<Rightarrow> v)"

text \<open>\<^verbatim>\<open>Map.prototype.set\<close> overwrites the value of a key in place and appends a new key.\<close>

fun set_entry :: "'k \<Rightarrow> jsval \<Rightarrow> ('k \<times> jsval) list \<Rightarrow> ('k \<times> jsval) list" where
  "set_entry key v [] = [(key, v)]"
| "set_entry key v ((k, w) # es) =
     (if k = key then (key, v) # es else (k, w) # set_entry key v es)"

definition set_coll :: "'k \<Rightarrow> jsval \<Rightarrow> 'k collection \<Rightarrow> 'k collection" where
  "set_coll key v c = c\<lparr>store := set_entry key v (store c)\<rparr>"

fun delete_entry :: "'k \<Rightarrow> ('k \<times> jsval) list \<Rightarrow> ('k \<times> jsval) list" where
  "delete_entry key [] = []"
| "delete_entry key ((k, w) # es) =
     (if k = key then es else (k, w) # delete_entry key es)"

definition delete :: "'k \<Rightarrow> 'k collection \<Rightarrow> 'k collection" where
  "delete key c = c\<lparr>store := delete_entry key (store c)\<rparr>"

text \<open>\<^verbatim>\<open>this.values()\<close>, the values in iteration order.\<close>

definition values_coll :: "'k collection \<Rightarrow> jsval list" where
  "values_coll c = List.map snd (store c)"

section \<open>Collection\<close>

text \<open>
  Every method takes the collection and returns its result together with the collection
  it leaves behind. A method that can throw returns \<open>Inl\<close> of the error. The callbacks
  of the query helpers are functions of the item alone.
\<close>

text \<open>\<^verbatim>\<open>this.baseObject = baseObject ? baseObject : null\<close> over an empty Map.\<close>

definition constructor :: "cls option \<Rightarrow> 'k collection" where
  "constructor b = \<lparr>baseObject = (case b of Some k \<Rightarrow> Some k | None \<Rightarrow> None), store = []\<rparr>"

text \<open>
  What a spread \<^verbatim>\<open>[...x]\<close> is applied to: the iterator a call of \<^verbatim>\<open>values()\<close>
  returns, or the method \<^verbatim>\<open>values\<close> itself, a function, which is not iterable.
\<close>

datatype spread_arg = Iterator "jsval list" | Method

fun spread :: "spread_arg \<Rightarrow> error + jsval list" where
  "spread (Iterator vs) = Inr vs"
| "spread Method = Inl TypeError"

text \<open>\<^verbatim>\<open>this.values\<close>, read and not called.\<close>

definition values_property :: "'k collection \<Rightarrow> spread_arg" where
  "values_property c = Method"

text \<open>\<^verbatim>\<open>return [...this.values];\<close>\<close>

definition toArray :: "'k collection \<Rightarrow> (error + jsval list) \<times> 'k collection" where
  "toArray c = (spread (values_property c), c)"

definition add :: "'k \<Rightarrow> jsval \<Rightarrow> bool \<Rightarrow> 'k collection \<Rightarrow> jsval \<times> 'k collection" where
  "add key v replace c =
     (let existing = get key c in
      if truthy existing \<and> \<not> replace then (existing, c)
      else if (case baseObject c of None \<Rightarrow> False | Some b \<Rightarrow> \<not> instanceof v b) then (Null, c)
      else (v, set_coll key v c))"

fun find_loop :: "(jsval \<Rightarrow> jsval) \<Rightarrow> jsval list \<Rightarrow> jsval" where
  "find_loop func [] = Undefined"
| "find_loop func (item # items) = (if truthy (func item) then item else find_loop func items)"

definition find_coll :: "(jsval \<Rightarrow> jsval) \<Rightarrow> 'k collection \<Rightarrow> jsval \<times> 'k collection" where
  "find_coll func c = (find_loop func (values_coll c), c)"

text \<open>
  \<^verbatim>\<open>Array.from(this.values())[Math.floor(Math.random() * this.size)]\<close>. The index
  \<^verbatim>\<open>Math.floor(Math.random() * this.size)\<close> is the product of two doubles, rounded
  and floored; it is taken as the parameter \<open>index\<close>, a natural number. The read of an
  array at an index is \<^verbatim>\<open>undefined\<close> out of range.
\<close>

definition array_at :: "jsval list \<Rightarrow> nat \<Rightarrow> jsval" where
  "array_at xs i = (if i < length xs then xs ! i else Undefined)"

definition random :: "nat \<Rightarrow> 'k collection \<Rightarrow> jsval \<times> 'k collection" where
  "random index c =
     (if size_coll c = 0 then (Undefined, c)
      else (array_at (values_coll c) index, c))"

fun filter_loop :: "(jsval \<Rightarrow> jsval) \<Rightarrow> jsval list \<Rightarrow> jsval list \<Rightarrow> jsval list" where
  "filter_loop func [] arr = arr"
| "filter_loop func (item # items) arr =
     filter_loop func items (if truthy (func item) then arr @ [item] else arr)"

definition filter_coll :: "(jsval \<Rightarrow> jsval) \<Rightarrow> 'k collection \<Rightarrow> jsval list \<times> 'k collection" where
  "filter_coll func c = (filter_loop func (values_coll c) [], c)"

fun map_loop :: "(jsval \<Rightarrow> 'r) \<Rightarrow> jsval list \<Rightarrow> 'r list \<Rightarrow> 'r list" where
  "map_loop func [] arr = arr"
| "map_loop func (item # items) arr = map_loop func items (arr @ [func item])"

definition map_coll :: "(jsval \<Rightarrow> 'r) \<Rightarrow> 'k collection \<Rightarrow> 'r list \<times> 'k collection" where
  "map_coll func c = (map_loop func (values_coll c) [], c)"

fun some_loop :: "(jsval \<Rightarrow> jsval) \<Rightarrow> jsval list \<Rightarrow> bool" where
  "some_loop func [] = False"
| "some_loop func (item # items) = (if truthy (func item) then True else some_loop func items)"

definition some :: "(jsval \<Rightarrow> jsval) \<Rightarrow> 'k collection \<Rightarrow> bool \<times> 'k collection" where
  "some func c = (some_loop func (values_coll c), c)"

fun every_loop :: "(jsval \<Rightarrow> jsval) \<Rightarrow> jsval list \<Rightarrow> bool" where
  "every_loop func [] = True"
| "every_loop func (item # items) =
     (if \<not> truthy (func item) then False else every_loop func items)"

definition every :: "(jsval \<Rightarrow> jsval) \<Rightarrow> 'k collection \<Rightarrow> bool \<times> 'k collection" where
  "every func c = (every_loop func (values_coll c), c)"

definition update :: "'k \<Rightarrow> jsval \<Rightarrow> 'k collection \<Rightarrow> jsval \<times> 'k collection" where
  "update key v c = add key v True c"

definition remove :: "'k \<Rightarrow> 'k collection \<Rightarrow> jsval \<times> 'k collection" where
  "remove key c =
     (let item = get key c in
      if \<not> truthy item then (Null, c)
      else (item, delete key c))"

text \<open>\<^verbatim>\<open>`[Collection<${this.baseObject.name}>]`\<close>: reading \<^verbatim>\<open>name\<close> off
  \<^verbatim>\<open>null\<close> throws.\<close>

definition toString :: "'k collection \<Rightarrow> (error + string) \<times> 'k collection" where
  "toString c =
     (case baseObject c of
        None \<Rightarrow> (Inl TypeError, c)
      | Some b \<Rightarrow> (Inr (''[Collection<'' @ cls_name b @ ''>]''), c))"

text \<open>The collections a program can build with the constructor and the three writers.\<close>

inductive reachable :: "'k collection \<Rightarrow> bool" where
  created: "reachable (constructor b)"
| added: "reachable c \<Longrightarrow> reachable (snd (add key v replace c))"
| updated: "reachable c \<Longrightarrow> reachable (snd (update key v c))"
| removed: "reachable c \<Longrightarrow> reachable (snd (remove key c))"

section \<open>The entries of the Map\<close>

lemma map_of_set_entry: "map_of (set_entry key v es) = (map_of es)(key \<mapsto> v)"
  by (induction es) (auto simp: fun_eq_iff)

lemma entries_set_entry: "e \<in> set (set_entry key v es) \<Longrightarrow> e = (key, v) \<or> e \<in> set es"
  by (induction es) (auto split: if_splits)

lemma length_set_entry:
  "length (set_entry key v es) = (if map_of es key = None then Suc (length es) else length es)"
  by (induction es) (auto split: if_splits)

lemma distinct_set_entry:
  "distinct (List.map fst es) \<Longrightarrow> distinct (List.map fst (set_entry key v es))"
proof (induction es)
  case Nil
  show ?case by simp
next
  case (Cons e es)
  obtain k w where e: "e = (k, w)" by (cases e)
  from Cons.prems have nk: "map_of es k = None" and d: "distinct (List.map fst es)"
    by (simp_all add: e map_of_eq_None_iff)
  show ?case
  proof (cases "k = key")
    case True
    with Cons.prems show ?thesis by (simp add: e)
  next
    case False
    with nk have "map_of (set_entry key v es) k = None" by (simp add: map_of_set_entry)
    then have "k \<notin> fst ` set (set_entry key v es)" by (simp add: map_of_eq_None_iff)
    with False Cons.IH [OF d] show ?thesis by (simp add: e)
  qed
qed

lemma delete_entry_absent: "map_of es key = None \<Longrightarrow> delete_entry key es = es"
  by (induction es) (auto split: if_splits)

lemma entries_delete_entry: "e \<in> set (delete_entry key es) \<Longrightarrow> e \<in> set es"
  by (induction es) (auto split: if_splits)

lemma map_of_delete_entry:
  "distinct (List.map fst es) \<Longrightarrow> map_of (delete_entry key es) = (map_of es)(key := None)"
proof (induction es)
  case Nil
  show ?case by simp
next
  case (Cons e es)
  obtain k w where e: "e = (k, w)" by (cases e)
  from Cons.prems have nk: "map_of es k = None" and d: "distinct (List.map fst es)"
    by (simp_all add: e map_of_eq_None_iff)
  with Cons.IH [OF d] show ?case by (auto simp: e fun_eq_iff)
qed

lemma length_delete_entry:
  "map_of es key \<noteq> None \<Longrightarrow> Suc (length (delete_entry key es)) = length es"
  by (induction es) (auto split: if_splits)

lemma distinct_delete_entry:
  "distinct (List.map fst es) \<Longrightarrow> distinct (List.map fst (delete_entry key es))"
proof (induction es)
  case Nil
  show ?case by simp
next
  case (Cons e es)
  obtain k w where e: "e = (k, w)" by (cases e)
  from Cons.prems have nk: "map_of es k = None" and d: "distinct (List.map fst es)"
    by (simp_all add: e map_of_eq_None_iff)
  from nk have "map_of (delete_entry key es) k = None"
    by (simp add: map_of_delete_entry [OF d])
  then have "k \<notin> fst ` set (delete_entry key es)" by (simp add: map_of_eq_None_iff)
  with Cons.IH [OF d] d show ?case by (simp add: e)
qed

lemma length_values_coll: "length (values_coll c) = size_coll c"
  by (simp add: values_coll_def size_coll_def)

lemma truthy_get_has: "truthy (get key c) \<Longrightarrow> has key c"
  by (auto simp: get_def has_def split: option.splits)

lemma get_in_values: "has key c \<Longrightarrow> get key c \<in> set (values_coll c)"
proof -
  assume "has key c"
  then obtain w where w: "map_of (store c) key = Some w" by (auto simp: has_def)
  then have "(key, w) \<in> set (store c)" by (rule map_of_SomeD)
  then have "snd (key, w) \<in> snd ` set (store c)" by (rule imageI)
  with w show ?thesis by (simp add: get_def values_coll_def)
qed

text \<open>Every object is truthy, so an instance of a class is.\<close>

lemma instanceof_truthy: "instanceof v b \<Longrightarrow> truthy v"
  by (cases v) auto

section \<open>What the writers keep\<close>

lemma baseObject_add: "baseObject (snd (add key v replace c)) = baseObject c"
  by (simp add: add_def set_coll_def Let_def)

lemma baseObject_remove: "baseObject (snd (remove key c)) = baseObject c"
  by (simp add: remove_def delete_def Let_def)

lemma wf_constructor: "wf (constructor b)"
  by (simp add: wf_def constructor_def)

lemma wf_add: "wf c \<Longrightarrow> wf (snd (add key v replace c))"
  by (simp add: wf_def add_def set_coll_def Let_def distinct_set_entry)

lemma wf_remove: "wf c \<Longrightarrow> wf (snd (remove key c))"
  by (simp add: wf_def remove_def delete_def Let_def distinct_delete_entry)

lemma reachable_wf: "reachable c \<Longrightarrow> wf c"
  by (induction rule: reachable.induct) (simp_all add: wf_constructor wf_add wf_remove update_def)

lemma values_remove:
  "x \<in> set (values_coll (snd (remove key c))) \<Longrightarrow> x \<in> set (values_coll c)"
proof -
  assume "x \<in> set (values_coll (snd (remove key c)))"
  then have "x \<in> set (values_coll c) \<or> x \<in> snd ` set (delete_entry key (store c))"
    by (auto simp: remove_def delete_def values_coll_def Let_def split: if_splits)
  then show ?thesis
    using entries_delete_entry [of _ key "store c"] by (force simp: values_coll_def)
qed

lemma add_stores_instances:
  assumes b: "baseObject c = Some b"
    and x: "x \<in> set (values_coll (snd (add key v replace c)))"
  shows "x \<in> set (values_coll c) \<or> instanceof x b"
proof (cases "snd (add key v replace c) = c")
  case True
  with x show ?thesis by simp
next
  case False
  then have inst: "instanceof v b" and st: "snd (add key v replace c) = set_coll key v c"
    using b by (auto simp: add_def Let_def split: if_splits)
  from x st obtain e where "e \<in> set (set_entry key v (store c))" and "x = snd e"
    by (auto simp: values_coll_def set_coll_def)
  with entries_set_entry [of e key v "store c"] inst show ?thesis
    by (force simp: values_coll_def)
qed

lemma add_keeps_instances:
  assumes b: "baseObject c = Some b"
    and inv: "\<forall>x \<in> set (values_coll c). instanceof x b"
  shows "\<forall>x \<in> set (values_coll (snd (add key v replace c))). instanceof x b"
proof
  fix x assume "x \<in> set (values_coll (snd (add key v replace c)))"
  from add_stores_instances [OF b this] inv show "instanceof x b" by auto
qed

lemma remove_keeps_instances:
  assumes inv: "\<forall>x \<in> set (values_coll c). instanceof x b"
  shows "\<forall>x \<in> set (values_coll (snd (remove key c))). instanceof x b"
proof
  fix x assume "x \<in> set (values_coll (snd (remove key c)))"
  then have "x \<in> set (values_coll c)" by (rule values_remove)
  with inv show "instanceof x b" by simp
qed

text \<open>
  Where every stored value is an instance of the base class, the value of every key that is
  there is truthy: there the test \<^verbatim>\<open>if (existing)\<close> of \<^verbatim>\<open>add\<close> and
  \<^verbatim>\<open>if (!item)\<close> of \<^verbatim>\<open>remove\<close> is the test for the key.
\<close>

lemma typed_values_truthy:
  assumes "\<forall>x \<in> set (values_coll c). instanceof x b" and "has key c"
  shows "truthy (get key c)"
proof -
  from assms(2) have "get key c \<in> set (values_coll c)" by (rule get_in_values)
  with assms(1) have "instanceof (get key c) b" by simp
  then show ?thesis by (rule instanceof_truthy)
qed

section \<open>toArray\<close>

text \<open>
  The array the other helpers would build from the iterator \<^verbatim>\<open>this.values()\<close>: the
  values in iteration order, as many as \<^verbatim>\<open>size\<close>.
\<close>

lemma spread_values_call:
  "spread (Iterator (values_coll c)) = Inr (values_coll c) \<and> length (values_coll c) = size_coll c"
  by (simp add: length_values_coll)

text \<open>
  C1. \<^verbatim>\<open>toArray()\<close> should return the values of the store in iteration order, as many
  as \<^verbatim>\<open>size\<close>, and leave the collection as it is. The source spreads the method
  \<^verbatim>\<open>this.values\<close> and not the iterator \<^verbatim>\<open>this.values()\<close> that every other
  helper iterates over, so on every collection the call throws a TypeError and returns no
  array. The collection is left as it was.
\<close>

theorem toArray_throws_TypeError: "toArray c = (Inl TypeError, c)"
  by (simp add: toArray_def values_property_def)

section \<open>add\<close>

text \<open>
  C2, as stated: for every key present with value V1, \<^verbatim>\<open>add(K, V2, false)\<close> returns V1
  and changes nothing. The source tests the value \<^verbatim>\<open>get\<close> returns for truthiness, not
  the key for presence: where the stored value is falsy (here the number 0) the call goes on
  to store V2 and returns it.
\<close>

theorem add_no_replace_falsy_counterexample:
  "has ''a'' \<lparr>baseObject = None, store = [(''a'', JNum 0)]\<rparr>
   \<and> get ''a'' \<lparr>baseObject = None, store = [(''a'', JNum 0)]\<rparr> = JNum 0
   \<and> fst (add ''a'' (JNum 5) False \<lparr>baseObject = None, store = [(''a'', JNum 0)]\<rparr>) = JNum 5
   \<and> get ''a'' (snd (add ''a'' (JNum 5) False \<lparr>baseObject = None, store = [(''a'', JNum 0)]\<rparr>))
       = JNum 5"
  by (simp add: add_def has_def get_def set_coll_def Let_def)

text \<open>
  C2, amended: for every collection and every key K present with a truthy stored value V1
  (every object is one), \<^verbatim>\<open>add(K, V2, false)\<close> returns V1 and leaves the collection
  as it is, so \<^verbatim>\<open>get(K)\<close> is still V1 and \<^verbatim>\<open>size\<close> is unchanged, for every V2.
\<close>

theorem add_no_replace_keeps_truthy:
  "has key c \<Longrightarrow> get key c = v1 \<Longrightarrow> truthy v1 \<Longrightarrow>
   add key v2 False c = (v1, c)
   \<and> get key (snd (add key v2 False c)) = v1
   \<and> size_coll (snd (add key v2 False c)) = size_coll c"
  by (simp add: add_def Let_def)

theorem add_no_replace_keeps_truthy_witness:
  "has ''a'' \<lparr>baseObject = None, store = [(''a'', JStr ''x'')]\<rparr>
   \<and> truthy (JStr ''x'')
   \<and> add ''a'' (JNum 5) False \<lparr>baseObject = None, store = [(''a'', JStr ''x'')]\<rparr>
       = (JStr ''x'', \<lparr>baseObject = None, store = [(''a'', JStr ''x'')]\<rparr>)"
  using add_no_replace_keeps_truthy [of "''a''"
      "\<lparr>baseObject = None, store = [(''a'', JStr ''x'')]\<rparr>" "JStr ''x''" "JNum 5"]
  by (simp add: has_def get_def)

text \<open>
  C4, as stated: with a base class set and a value that is not an instance of it,
  \<^verbatim>\<open>add\<close> returns null for both values of \<^verbatim>\<open>replace\<close>. The test for an existing
  value comes first in the source: without \<^verbatim>\<open>replace\<close>, on a key that holds a truthy
  value, the call returns that value and not null.
\<close>

theorem add_rejects_existing_counterexample:
  "baseObject \<lparr>baseObject = Some (Base ''Command''), store = [(''a'', JObj (Base ''Command'') 1)]\<rparr>
     = Some (Base ''Command'')
   \<and> \<not> instanceof (JNum 3) (Base ''Command'')
   \<and> fst (add ''a'' (JNum 3) False
        \<lparr>baseObject = Some (Base ''Command''), store = [(''a'', JObj (Base ''Command'') 1)]\<rparr>)
     = JObj (Base ''Command'') 1
   \<and> fst (add ''a'' (JNum 3) False
        \<lparr>baseObject = Some (Base ''Command''), store = [(''a'', JObj (Base ''Command'') 1)]\<rparr>)
     \<noteq> Null"
  by (simp add: add_def get_def Let_def)

text \<open>
  C4, amended: for every collection whose base class is set, every key K and every value V
  that is not an instance of the base class, \<^verbatim>\<open>add(K, V, replace)\<close> leaves the whole
  collection as it is, for both values of \<^verbatim>\<open>replace\<close> (so \<^verbatim>\<open>has(K)\<close> and
  \<^verbatim>\<open>get(K)\<close> are unaffected), and returns null, except that without \<^verbatim>\<open>replace\<close> on
  a key that holds a truthy value it returns that value. The model of \<^verbatim>\<open>add\<close> has no
  error result: with a class as its right operand \<^verbatim>\<open>instanceof\<close> does not throw.
\<close>

theorem add_rejects_non_instance:
  "baseObject c = Some b \<Longrightarrow> \<not> instanceof v b \<Longrightarrow>
   snd (add key v replace c) = c
   \<and> fst (add key v replace c) = (if truthy (get key c) \<and> \<not> replace then get key c else Null)
   \<and> has key (snd (add key v replace c)) = has key c
   \<and> get key (snd (add key v replace c)) = get key c"
  by (simp add: add_def Let_def)

theorem add_rejects_non_instance_witness:
  "baseObject \<lparr>baseObject = Some (Base ''Command''), store = [(''a'', JObj (Base ''Command'') 1)]\<rparr>
     = Some (Base ''Command'')
   \<and> \<not> instanceof (JNum 3) (Base ''Command'')
   \<and> add ''a'' (JNum 3) True
        \<lparr>baseObject = Some (Base ''Command''), store = [(''a'', JObj (Base ''Command'') 1)]\<rparr>
     = (Null, \<lparr>baseObject = Some (Base ''Command''), store = [(''a'', JObj (Base ''Command'') 1)]\<rparr>)
   \<and> add ''b'' (JNum 3) False
        \<lparr>baseObject = Some (Base ''Command''), store = [(''a'', JObj (Base ''Command'') 1)]\<rparr>
     = (Null, \<lparr>baseObject = Some (Base ''Command''), store = [(''a'', JObj (Base ''Command'') 1)]\<rparr>)"
  using add_rejects_non_instance [of
      "\<lparr>baseObject = Some (Base ''Command''), store = [(''a'', JObj (Base ''Command'') 1)]\<rparr>"
      "Base ''Command''" "JNum 3" "''a''" True]
    add_rejects_non_instance [of
      "\<lparr>baseObject = Some (Base ''Command''), store = [(''a'', JObj (Base ''Command'') 1)]\<rparr>"
      "Base ''Command''" "JNum 3" "''b''" False]
  by (simp add: get_def prod_eq_iff)

section \<open>update\<close>

text \<open>
  C6. For every collection, key and value, \<^verbatim>\<open>update(key, value)\<close> returns what
  \<^verbatim>\<open>add(key, value, true)\<close> returns and leaves the collection that call leaves: the value
  is checked against the base class, a value that fails is answered with null and nothing is
  written, any other value is stored under the key and returned.
\<close>

theorem update_eq_add_replace:
  "update key v c = add key v True c
   \<and> update key v c =
       (case baseObject c of
          None \<Rightarrow> (v, set_coll key v c)
        | Some b \<Rightarrow> if instanceof v b then (v, set_coll key v c) else (Null, c))"
  by (simp add: update_def add_def Let_def split: option.split)

section \<open>remove\<close>

text \<open>
  C3, as stated: \<^verbatim>\<open>remove(K)\<close> on a key that is present deletes the entry and returns
  its value. The source tests the value for truthiness: a key that holds a falsy value (here
  the number 0) is answered with null and stays in the store.
\<close>

theorem remove_falsy_counterexample:
  "has ''a'' \<lparr>baseObject = None, store = [(''a'', JNum 0)]\<rparr>
   \<and> remove ''a'' \<lparr>baseObject = None, store = [(''a'', JNum 0)]\<rparr>
       = (Null, \<lparr>baseObject = None, store = [(''a'', JNum 0)]\<rparr>)
   \<and> has ''a'' (snd (remove ''a'' \<lparr>baseObject = None, store = [(''a'', JNum 0)]\<rparr>))
   \<and> size_coll (snd (remove ''a'' \<lparr>baseObject = None, store = [(''a'', JNum 0)]\<rparr>)) = 1"
  by (simp add: remove_def has_def get_def size_coll_def Let_def)

text \<open>
  C3, amended: for every collection, \<^verbatim>\<open>remove(K)\<close> on an absent key returns null and
  leaves the collection (and its size) as it is; on a key present with a truthy stored value
  (every object is one) it deletes the entry and only that entry, returns the value that was
  stored, lowers \<^verbatim>\<open>size\<close> by exactly one, and afterwards \<^verbatim>\<open>has(K)\<close> is false.
\<close>

theorem remove_truthy_contract:
  "(\<not> has key c \<longrightarrow> remove key c = (Null, c)) \<and>
   (wf c \<and> has key c \<and> truthy (get key c) \<longrightarrow>
      fst (remove key c) = get key c
      \<and> Suc (size_coll (snd (remove key c))) = size_coll c
      \<and> \<not> has key (snd (remove key c))
      \<and> map_of (store (snd (remove key c))) = (map_of (store c))(key := None)
      \<and> baseObject (snd (remove key c)) = baseObject c)"
proof (intro conjI impI)
  assume "\<not> has key c"
  then show "remove key c = (Null, c)"
    by (simp add: remove_def has_def get_def Let_def)
next
  assume a: "wf c \<and> has key c \<and> truthy (get key c)"
  then have r: "remove key c = (get key c, delete key c)"
    by (simp add: remove_def Let_def)
  from a have "wf c" and "has key c" by simp_all
  then have d: "distinct (List.map fst (store c))" and h: "map_of (store c) key \<noteq> None"
    unfolding wf_def has_def .
  show "fst (remove key c) = get key c" by (simp add: r)
  show "Suc (size_coll (snd (remove key c))) = size_coll c"
    using length_delete_entry [OF h] by (simp add: r size_coll_def delete_def)
  show "\<not> has key (snd (remove key c))"
    by (simp add: r has_def delete_def map_of_delete_entry [OF d])
  show "map_of (store (snd (remove key c))) = (map_of (store c))(key := None)"
    by (simp add: r delete_def map_of_delete_entry [OF d])
  show "baseObject (snd (remove key c)) = baseObject c"
    by (simp add: r delete_def)
qed

theorem remove_truthy_contract_witness:
  "remove ''b'' \<lparr>baseObject = None, store = [(''a'', JObj (Base ''Command'') 1)]\<rparr>
     = (Null, \<lparr>baseObject = None, store = [(''a'', JObj (Base ''Command'') 1)]\<rparr>)
   \<and> fst (remove ''a'' \<lparr>baseObject = None, store = [(''a'', JObj (Base ''Command'') 1)]\<rparr>)
     = JObj (Base ''Command'') 1
   \<and> size_coll (snd (remove ''a''
        \<lparr>baseObject = None, store = [(''a'', JObj (Base ''Command'') 1)]\<rparr>)) = 0
   \<and> \<not> has ''a'' (snd (remove ''a''
        \<lparr>baseObject = None, store = [(''a'', JObj (Base ''Command'') 1)]\<rparr>))"
  using remove_truthy_contract [of "''b''"
      "\<lparr>baseObject = None, store = [(''a'', JObj (Base ''Command'') 1)]\<rparr>"]
    remove_truthy_contract [of "''a''"
      "\<lparr>baseObject = None, store = [(''a'', JObj (Base ''Command'') 1)]\<rparr>"]
  by (simp add: wf_def has_def get_def size_coll_def)

section \<open>The base class of the stored values\<close>

text \<open>
  C5. In every collection that the constructor followed by any sequence of \<^verbatim>\<open>add\<close>,
  \<^verbatim>\<open>update\<close> and \<^verbatim>\<open>remove\<close> calls can build, if the base class is set then
  every value in the store is an instance of it.
\<close>

theorem reachable_values_instanceof:
  "reachable c \<Longrightarrow> baseObject c = Some b \<Longrightarrow> \<forall>v \<in> set (values_coll c). instanceof v b"
proof (induction rule: reachable.induct)
  case (created b')
  show ?case by (simp add: constructor_def values_coll_def)
next
  case (added c key v replace)
  from added.prems have b: "baseObject c = Some b" by (simp add: baseObject_add)
  from add_keeps_instances [OF b added.IH [OF b]] show ?case .
next
  case (updated c key v)
  from updated.prems have b: "baseObject c = Some b" by (simp add: update_def baseObject_add)
  from add_keeps_instances [OF b updated.IH [OF b]] show ?case by (simp add: update_def)
next
  case (removed c key)
  from removed.prems have b: "baseObject c = Some b" by (simp add: baseObject_remove)
  from remove_keeps_instances [OF removed.IH [OF b]] show ?case .
qed

theorem reachable_values_instanceof_witness:
  "reachable (snd (add ''a'' (JObj (Extends ''Ping'' (Base ''Command'')) 1) False
              (constructor (Some (Base ''Command'')))))
   \<and> baseObject (snd (add ''a'' (JObj (Extends ''Ping'' (Base ''Command'')) 1) False
              (constructor (Some (Base ''Command''))))) = Some (Base ''Command'')
   \<and> values_coll (snd (add ''a'' (JObj (Extends ''Ping'' (Base ''Command'')) 1) False
              (constructor (Some (Base ''Command'')))))
       = [JObj (Extends ''Ping'' (Base ''Command'')) 1]
   \<and> instanceof (JObj (Extends ''Ping'' (Base ''Command'')) 1) (Base ''Command'')"
proof -
  let ?c = "snd (add ''a'' (JObj (Extends ''Ping'' (Base ''Command'')) 1) False
              (constructor (Some (Base ''Command''))))"
  have r: "reachable ?c" by (rule reachable.added) (rule reachable.created)
  have b: "baseObject ?c = Some (Base ''Command'')"
    by (simp add: add_def constructor_def get_def set_coll_def Let_def)
  have v: "values_coll ?c = [JObj (Extends ''Ping'' (Base ''Command'')) 1]"
    by (simp add: add_def constructor_def get_def set_coll_def values_coll_def Let_def)
  from reachable_values_instanceof [OF r b] v
  have "instanceof (JObj (Extends ''Ping'' (Base ''Command'')) 1) (Base ''Command'')" by simp
  with r b v show ?thesis by simp
qed

section \<open>toString\<close>

text \<open>
  C7. \<^verbatim>\<open>toString()\<close> reads \<^verbatim>\<open>baseObject.name\<close> without a test: on a collection
  whose base class is set it returns \<^verbatim>\<open>[Collection<\<close>, the name of the class and
  \<^verbatim>\<open>>]\<close>, and on a collection whose base class is null the read throws.
\<close>

theorem toString_name_access:
  "(baseObject c = Some b \<longrightarrow> toString c = (Inr (''[Collection<'' @ cls_name b @ ''>]''), c))
   \<and> (baseObject c = None \<longrightarrow> toString c = (Inl TypeError, c))"
  by (simp add: toString_def)

theorem toString_name_access_witness:
  "toString \<lparr>baseObject = Some (Base ''Command''), store = ([] :: (string \<times> jsval) list)\<rparr>
     = (Inr ''[Collection<Command>]'',
        \<lparr>baseObject = Some (Base ''Command''), store = []\<rparr>)
   \<and> toString \<lparr>baseObject = None, store = ([] :: (string \<times> jsval) list)\<rparr>
     = (Inl TypeError, \<lparr>baseObject = None, store = []\<rparr>)"
  using toString_name_access [of
      "\<lparr>baseObject = Some (Base ''Command''), store = ([] :: (string \<times> jsval) list)\<rparr>"
      "Base ''Command''"]
    toString_name_access [of "\<lparr>baseObject = None, store = ([] :: (string \<times> jsval) list)\<rparr>"]
  by simp

section \<open>some and every\<close>

lemma some_loop_iff: "some_loop func items = (\<exists>v \<in> set items. truthy (func v))"
  by (induction items) simp_all

lemma every_loop_iff: "every_loop func items = (\<forall>v \<in> set items. truthy (func v))"
  by (induction items) simp_all

text \<open>
  C8. For every collection and every callback, \<^verbatim>\<open>some(f)\<close> is true exactly when f is
  truthy on at least one stored value and \<^verbatim>\<open>every(f)\<close> is true exactly when f is truthy
  on all of them; on an empty collection \<^verbatim>\<open>some(f)\<close> is false and \<^verbatim>\<open>every(f)\<close> is
  true.
\<close>

theorem some_every_iff:
  "fst (some func c) = (\<exists>v \<in> set (values_coll c). truthy (func v))
   \<and> fst (every func c) = (\<forall>v \<in> set (values_coll c). truthy (func v))
   \<and> (size_coll c = 0 \<longrightarrow> fst (some func c) = False \<and> fst (every func c) = True)"
  by (simp add: some_def every_def some_loop_iff every_loop_iff size_coll_def values_coll_def)

theorem some_every_iff_witness:
  "fst (some (\<lambda>v. v) \<lparr>baseObject = None, store = [(''a'', JNum 0), (''b'', JNum 7)]\<rparr>) = True
   \<and> fst (every (\<lambda>v. v) \<lparr>baseObject = None, store = [(''a'', JNum 0), (''b'', JNum 7)]\<rparr>) = False
   \<and> fst (some (\<lambda>v. v) \<lparr>baseObject = None, store = ([] :: (string \<times> jsval) list)\<rparr>) = False
   \<and> fst (every (\<lambda>v. v) \<lparr>baseObject = None, store = ([] :: (string \<times> jsval) list)\<rparr>) = True"
  using some_every_iff [of "\<lambda>v. v"
      "\<lparr>baseObject = None, store = [(''a'', JNum 0), (''b'', JNum 7)]\<rparr>"]
    some_every_iff [of "\<lambda>v. v" "\<lparr>baseObject = None, store = ([] :: (string \<times> jsval) list)\<rparr>"]
  by (simp add: values_coll_def size_coll_def)

section \<open>random\<close>

text \<open>
  C9. \<^verbatim>\<open>random()\<close> returns \<^verbatim>\<open>undefined\<close> on an empty collection. On a collection
  that is not empty, for every index in [0, size) that the random choice can give, the result
  is the value at that index of the values in iteration order, a value that is in the
  collection, and the collection is left as it is.
\<close>

theorem random_member:
  "(size_coll c = 0 \<longrightarrow> random index c = (Undefined, c))
   \<and> (0 < size_coll c \<and> index < size_coll c \<longrightarrow>
        fst (random index c) = values_coll c ! index
        \<and> fst (random index c) \<in> set (values_coll c)
        \<and> snd (random index c) = c)"
proof (intro conjI impI)
  assume "size_coll c = 0"
  then show "random index c = (Undefined, c)" by (simp add: random_def)
next
  assume a: "0 < size_coll c \<and> index < size_coll c"
  then show v: "fst (random index c) = values_coll c ! index"
    by (simp add: random_def array_at_def length_values_coll)
  from a have "index < length (values_coll c)" by (simp add: length_values_coll)
  then show "fst (random index c) \<in> set (values_coll c)" unfolding v by (rule nth_mem)
  show "snd (random index c) = c" by (simp add: random_def)
qed

theorem random_member_witness:
  "random 0 \<lparr>baseObject = None, store = ([] :: (string \<times> jsval) list)\<rparr>
     = (Undefined, \<lparr>baseObject = None, store = []\<rparr>)
   \<and> fst (random 0 \<lparr>baseObject = None, store = [(''a'', JNum 4), (''b'', JNum 7)]\<rparr>) = JNum 4
   \<and> fst (random 1 \<lparr>baseObject = None, store = [(''a'', JNum 4), (''b'', JNum 7)]\<rparr>) = JNum 7"
  using random_member [of "\<lparr>baseObject = None, store = ([] :: (string \<times> jsval) list)\<rparr>" 0]
    random_member [of "\<lparr>baseObject = None, store = [(''a'', JNum 4), (''b'', JNum 7)]\<rparr>" 0]
    random_member [of "\<lparr>baseObject = None, store = [(''a'', JNum 4), (''b'', JNum 7)]\<rparr>" 1]
  by (simp add: size_coll_def values_coll_def)

section \<open>What the methods leave alone\<close>

text \<open>
  C10. The field \<^verbatim>\<open>baseObject\<close> is what the constructor was given, and \<^verbatim>\<open>add\<close>,
  \<^verbatim>\<open>update\<close> and \<^verbatim>\<open>remove\<close> leave it as it is; \<^verbatim>\<open>toArray\<close>,
  \<^verbatim>\<open>find\<close>, \<^verbatim>\<open>random\<close>, \<^verbatim>\<open>filter\<close>, \<^verbatim>\<open>map\<close>, \<^verbatim>\<open>some\<close>,
  \<^verbatim>\<open>every\<close> and \<^verbatim>\<open>toString\<close> leave the whole collection, store and field, as it
  is, for every callback.
\<close>

theorem baseObject_store_unchanged:
  "baseObject (constructor b :: 'k collection) = b
   \<and> baseObject (snd (add key v replace c)) = baseObject c
   \<and> baseObject (snd (update key v c)) = baseObject c
   \<and> baseObject (snd (remove key c)) = baseObject c
   \<and> snd (toArray c) = c
   \<and> snd (find_coll func c) = c
   \<and> snd (random index c) = c
   \<and> snd (filter_coll func c) = c
   \<and> snd (map_coll g c) = c
   \<and> snd (some func c) = c
   \<and> snd (every func c) = c
   \<and> snd (toString c) = c"
  by (simp add: constructor_def baseObject_add baseObject_remove update_def toArray_def
      find_coll_def random_def filter_coll_def map_coll_def some_def every_def toString_def
      split: option.split)

end
